theory Spec2Isabelle
  imports Complex_Main "HOL-Library.Sublist"
begin

section \<open>The AI code debugger of CodeAnalyzer.tsx\<close>

text \<open>
  The second component of \<^verbatim>\<open>src/Markus Code/src/components/CodeAnalyzer.tsx\<close>
  (lines 268 to 783) sends a code sample and a problem description to one of four
  text-generation providers, recovers a JSON object from the answer and shows either a
  three-field result or an error message. This theory embeds its non-visual part:
  \<^verbatim>\<open>AI_MODELS\<close>, \<^verbatim>\<open>extractJsonFromText\<close>, \<^verbatim>\<open>validateDebugResult\<close>, the four
  provider handlers and \<^verbatim>\<open>handleDebug\<close>.

  JavaScript strings are modelled as \<^typ>\<open>string\<close>: each \<^typ>\<open>char\<close> stands for one
  code unit below 256. Nothing in the embedded code looks at a code unit other than to
  compare it with an ASCII character or to test it for white space.
\<close>

subsection \<open>Values of the JavaScript runtime\<close>

text \<open>
  A number is an IEEE double; only its value matters here (it is tested for truthiness
  and otherwise passed along), so a finite double is represented by the rational it
  denotes, both zeros by \<open>Finite 0\<close>.
\<close>

datatype jsnum = NaN | Infinity bool | Finite rat

text \<open>
  What \<^verbatim>\<open>JSON.parse\<close> can return, and \<^verbatim>\<open>undefined\<close>, which a property read yields for
  an absent key. An object is the list of its own properties; a property read takes the
  first entry with the key.
\<close>

datatype jsval =
    JUndefined
  | JNull
  | JBool bool
  | JNumber jsnum
  | JString string
  | JArray "jsval list"
  | JObject "(string \<times> jsval) list"

text \<open>
  A thrown value: the handlers only ask \<^verbatim>\<open>err instanceof Error\<close> and then read
  \<^verbatim>\<open>err.message\<close>.
\<close>

datatype thrown = ErrorObject string | NonError

definition error_message :: "thrown \<Rightarrow> string \<Rightarrow> string" where
  "error_message err fallback = (case err of ErrorObject m \<Rightarrow> m | NonError \<Rightarrow> fallback)"

text \<open>\<^verbatim>\<open>ToBoolean\<close> of the language definition, as \<^verbatim>\<open>!x\<close> and \<^verbatim>\<open>if (x)\<close> apply it.\<close>

fun to_boolean :: "jsval \<Rightarrow> bool" where
  "to_boolean JUndefined = False"
| "to_boolean JNull = False"
| "to_boolean (JBool b) = b"
| "to_boolean (JNumber n) = (n \<noteq> NaN \<and> n \<noteq> Finite 0)"
| "to_boolean (JString s) = (s \<noteq> [])"
| "to_boolean (JArray xs) = True"
| "to_boolean (JObject kvs) = True"

text \<open>
  The read \<^verbatim>\<open>result.key\<close> for the three keys the validator reads. On \<^verbatim>\<open>null\<close> and
  \<^verbatim>\<open>undefined\<close> it raises a TypeError (the message is the V8 engine's); booleans,
  numbers, strings and arrays have no property of these names.
\<close>

definition cannot_read :: "string \<Rightarrow> string \<Rightarrow> thrown" where
  "cannot_read what key =
     ErrorObject (''Cannot read properties of '' @ what @ '' (reading ''
                  @ [CHR 0x27] @ key @ [CHR 0x27] @ '')'')"

fun get_property :: "jsval \<Rightarrow> string \<Rightarrow> thrown + jsval" where
  "get_property JUndefined key = Inl (cannot_read ''undefined'' key)"
| "get_property JNull key = Inl (cannot_read ''null'' key)"
| "get_property (JObject kvs) key =
     Inr (case map_of kvs key of None \<Rightarrow> JUndefined | Some v \<Rightarrow> v)"
| "get_property v key = Inr JUndefined"

subsection \<open>The model catalog\<close>

datatype provider = Google | OpenAI | Anthropic | Replicate

text \<open>
  The type \<^verbatim>\<open>AIModel\<close>; its fields \<^verbatim>\<open>value\<close>, \<^verbatim>\<open>label\<close> and \<^verbatim>\<open>provider\<close> carry the
  prefix \<open>model_\<close> here.
\<close>

record AIModel =
  model_value :: string
  model_label :: string
  model_provider :: provider

definition AI_MODELS :: "AIModel list" where
  "AI_MODELS =
    [ \<lparr>model_value = ''gemini-1.5'', model_label = ''Gemini 1.5'', model_provider = Google\<rparr>,
      \<lparr>model_value = ''gemini-1.5-flash'', model_label = ''Gemini 1.5 Flash'', model_provider = Google\<rparr>,
      \<lparr>model_value = ''gpt-3.5-turbo'', model_label = ''GPT-3.5 Turbo'', model_provider = OpenAI\<rparr>,
      \<lparr>model_value = ''gpt-4'', model_label = ''GPT-4'', model_provider = OpenAI\<rparr>,
      \<lparr>model_value = ''claude-3-opus'', model_label = ''Claude 3'', model_provider = Anthropic\<rparr>,
      \<lparr>model_value = ''meta/llama-2-70b-chat'', model_label = ''Llama 3'', model_provider = Replicate\<rparr> ]"

subsection \<open>extractJsonFromText\<close>

text \<open>
  \<^verbatim>\<open>text.match(/\{[\s\S]*\}/)\<close>, as a backtracking matcher runs it. The class
  \<^verbatim>\<open>[\s\S]\<close> accepts every code unit. At a start position the pattern needs an opening
  brace; the starred class then takes the whole remainder and gives code units back one
  at a time until a closing brace follows (\<open>star_then_close rest k\<close>: the star has taken
  \<open>k\<close> code units of \<open>rest\<close>). The search tries the start positions from left to right
  and returns the first match, \<^verbatim>\<open>jsonMatch[0]\<close>.
\<close>

fun star_then_close :: "string \<Rightarrow> nat \<Rightarrow> string option" where
  "star_then_close rest 0 =
     (if 0 < length rest \<and> rest ! 0 = CHR ''}'' then Some (take 1 rest) else None)"
| "star_then_close rest (Suc k) =
     (if Suc k < length rest \<and> rest ! Suc k = CHR ''}'' then Some (take (Suc (Suc k)) rest)
      else star_then_close rest k)"

fun match_at :: "string \<Rightarrow> string option" where
  "match_at [] = None"
| "match_at (c # rest) =
     (if c = CHR ''{'' then map_option ((#) c) (star_then_close rest (length rest)) else None)"

fun jsonMatch :: "string \<Rightarrow> string option" where
  "jsonMatch [] = None"
| "jsonMatch (c # cs) =
     (case match_at (c # cs) of Some m \<Rightarrow> Some m | None \<Rightarrow> jsonMatch cs)"

text \<open>
  \<^verbatim>\<open>JSON.parse\<close> belongs to the runtime, not to the repository: it is the parameter
  \<open>parse\<close>, with \<open>None\<close> for a SyntaxError.
\<close>

definition extractJsonFromText :: "(string \<Rightarrow> jsval option) \<Rightarrow> string \<Rightarrow> thrown + jsval" where
  "extractJsonFromText parse text =
     (case parse text of
        Some v \<Rightarrow> Inr v
      | None \<Rightarrow>
          (case jsonMatch text of
             Some m \<Rightarrow>
               (case parse m of
                  Some v \<Rightarrow> Inr v
                | None \<Rightarrow> Inl (ErrorObject ''Could not parse JSON from response''))
           | None \<Rightarrow> Inl (ErrorObject ''No JSON found in response'')))"

text \<open>
  The specification's wording of the second phase: the substring from the first opening
  brace to the last closing brace, both included. It is undefined when a brace is
  missing or the last closing brace stands before the first opening one.
\<close>

definition first_open :: "string \<Rightarrow> nat" where
  "first_open text = length (takeWhile (\<lambda>c. c \<noteq> CHR ''{'') text)"

definition last_close :: "string \<Rightarrow> nat" where
  "last_close text = length text - 1 - length (takeWhile (\<lambda>c. c \<noteq> CHR ''}'') (rev text))"

definition first_to_last_brace :: "string \<Rightarrow> string option" where
  "first_to_last_brace text =
     (if CHR ''{'' \<in> set text \<and> CHR ''}'' \<in> set text \<and> first_open text < last_close text
      then Some (take (last_close text - first_open text + 1) (drop (first_open text) text))
      else None)"

subsection \<open>validateDebugResult\<close>

text \<open>
  The type \<^verbatim>\<open>DebugResult\<close>. Its fields are declared as strings, but the function below
  builds it from a value of type \<^verbatim>\<open>any\<close>, so at run time a field holds whatever value
  the parsed object had.
\<close>

record DebugResult =
  problem :: jsval
  solution :: jsval
  codeSnippet :: jsval

definition validateDebugResult :: "jsval \<Rightarrow> thrown + DebugResult" where
  "validateDebugResult result =
     (case get_property result ''problem'' of
        Inl err \<Rightarrow> Inl err
      | Inr p \<Rightarrow>
          if \<not> to_boolean p then Inl (ErrorObject ''Invalid response format'')
          else (case get_property result ''solution'' of
             Inl err \<Rightarrow> Inl err
           | Inr s \<Rightarrow>
               if \<not> to_boolean s then Inl (ErrorObject ''Invalid response format'')
               else (case get_property result ''codeSnippet'' of
                  Inl err \<Rightarrow> Inl err
                | Inr c \<Rightarrow>
                    if \<not> to_boolean c then Inl (ErrorObject ''Invalid response format'')
                    else Inr \<lparr>problem = p, solution = s, codeSnippet = c\<rparr>)))"

subsection \<open>Component state and the outside world\<close>

text \<open>
  The state hooks \<^verbatim>\<open>code\<close>, \<^verbatim>\<open>problem\<close>, \<^verbatim>\<open>apiKey\<close>, \<^verbatim>\<open>model\<close>, \<^verbatim>\<open>loading\<close>,
  \<^verbatim>\<open>result\<close> and \<^verbatim>\<open>error\<close> of the component, with the prefix \<open>st_\<close>. A setter
  call becomes a record update; the last update of a field is the value the next render
  shows. An empty \<^verbatim>\<open>error\<close> and a \<^verbatim>\<open>null\<close> result show nothing.
\<close>

record app_state =
  st_code :: string
  st_problem :: string
  st_apiKey :: string
  st_model :: string
  st_loading :: bool
  st_result :: "DebugResult option"
  st_error :: string

text \<open>
  What a handler hands to its provider's client: the credential, the model identifier,
  the system instruction when there is one, and the prompt. The constant generation
  parameters (\<^verbatim>\<open>temperature\<close>, \<^verbatim>\<open>max_tokens\<close>, \<^verbatim>\<open>response_format\<close>) are left out.
\<close>

record request =
  rq_credential :: string
  rq_model :: string
  rq_system :: "string option"
  rq_prompt :: string

text \<open>
  The collaborators the component consumes, as parameters of the embedding:
  \<^item> \<open>JSON_parse\<close>: \<^verbatim>\<open>JSON.parse\<close>, \<open>None\<close> for a SyntaxError;
  \<^item> \<open>new_client\<close>: the client set-up before a handler's \<^verbatim>\<open>try\<close> block (\<^verbatim>\<open>new OpenAI\<close>,
    \<^verbatim>\<open>new GoogleGenerativeAI\<close> with \<^verbatim>\<open>getGenerativeModel\<close>, \<^verbatim>\<open>new Anthropic\<close>,
    \<^verbatim>\<open>new Replicate\<close>), given the credential and the model; \<open>Some err\<close> when it throws;
  \<^item> \<open>generateContent\<close>: Gemini's \<^verbatim>\<open>generateContent\<close> followed by \<^verbatim>\<open>response.text()\<close>;
  \<^item> \<open>chat_completions_create\<close>: OpenAI's call; the answer lists, for each element of
    \<^verbatim>\<open>response.choices\<close>, its \<^verbatim>\<open>message.content\<close> (\<open>None\<close> when that is \<^verbatim>\<open>null\<close> or absent);
  \<^item> \<open>messages_create\<close>: Anthropic's call; the answer lists the \<^verbatim>\<open>text\<close> of each block of
    \<^verbatim>\<open>response.content\<close>;
  \<^item> \<open>replicate_run\<close>: Replicate's \<^verbatim>\<open>run\<close>; the answer is any value.

  \<open>Inl err\<close> is a value thrown inside the handler's \<^verbatim>\<open>try\<close> block while the answer is
  obtained. A call that never settles is outside this embedding.
\<close>

record world =
  JSON_parse :: "string \<Rightarrow> jsval option"
  new_client :: "provider \<Rightarrow> string \<Rightarrow> string \<Rightarrow> thrown option"
  generateContent :: "request \<Rightarrow> thrown + string"
  chat_completions_create :: "request \<Rightarrow> thrown + string option list"
  messages_create :: "request \<Rightarrow> thrown + string list"
  replicate_run :: "request \<Rightarrow> thrown + jsval"

text \<open>
  A log of what one run did, kept beside the state so that claims about the order and
  the number of steps can be stated: a handler was entered, a provider call was issued,
  the extractor ran on a text, the validator ran on a value.
\<close>

datatype event =
    Invoked provider
  | Called provider request
  | Extracted string
  | Validated jsval

subsection \<open>The prompts\<close>

definition response_format :: string where
  "response_format = ''{
  \"problem\": \"detailed analysis of the issue\",
  \"solution\": \"step-by-step solution\",
  \"codeSnippet\": \"relevant problematic code section\"
}''"

text \<open>
  The template literal that \<^verbatim>\<open>handleGeminiDebug\<close>, \<^verbatim>\<open>handleClaudeDebug\<close> and
  \<^verbatim>\<open>handleLlamaDebug\<close> each spell out, character for character the same.
\<close>

definition standard_prompt :: "string \<Rightarrow> string \<Rightarrow> string" where
  "standard_prompt code problem_text =
     ''You are an expert programmer. Analyze this code and problem, then respond ONLY with a JSON object in this exact format:
'' @ response_format @ ''

Code:
'' @ code @ ''

Problem Description:
'' @ problem_text"

definition openai_system :: string where
  "openai_system = ''You are an expert programmer. Respond ONLY with a JSON object containing problem analysis, solution, and problematic code snippet.''"

definition openai_user :: "string \<Rightarrow> string \<Rightarrow> string" where
  "openai_user code problem_text =
     ''Analyze this code and problem:

Code:
'' @ code @ ''

Problem Description:
'' @ problem_text @ ''

Respond ONLY with a JSON object in this exact format:
'' @ response_format"

text \<open>
  The request each handler builds. The Anthropic and Replicate handlers ignore the
  selected identifier and name a fixed model.
\<close>

fun build_request :: "provider \<Rightarrow> app_state \<Rightarrow> request" where
  "build_request Google st =
     \<lparr>rq_credential = st_apiKey st, rq_model = st_model st, rq_system = None,
      rq_prompt = standard_prompt (st_code st) (st_problem st)\<rparr>"
| "build_request OpenAI st =
     \<lparr>rq_credential = st_apiKey st, rq_model = st_model st, rq_system = Some openai_system,
      rq_prompt = openai_user (st_code st) (st_problem st)\<rparr>"
| "build_request Anthropic st =
     \<lparr>rq_credential = st_apiKey st, rq_model = ''claude-3-opus-20240229'', rq_system = None,
      rq_prompt = standard_prompt (st_code st) (st_problem st)\<rparr>"
| "build_request Replicate st =
     \<lparr>rq_credential = st_apiKey st,
      rq_model = ''meta/llama-2-70b-chat:02e509c789964a7ea8736978a43525956ef40397be9033abf9fd2badfe68c9e3'',
      rq_system = None,
      rq_prompt = standard_prompt (st_code st) (st_problem st)\<rparr>"

subsection \<open>The provider handlers\<close>

text \<open>
  The two statements every handler ends its \<^verbatim>\<open>try\<close> block with,
  \<^verbatim>\<open>extractJsonFromText\<close> and then \<^verbatim>\<open>setResult(validateDebugResult(parsedResult))\<close>, and
  the \<^verbatim>\<open>catch\<close> clause that turns a thrown value into \<^verbatim>\<open>setError\<close>.
\<close>

definition extract_and_validate ::
  "(string \<Rightarrow> jsval option) \<Rightarrow> string \<Rightarrow> (thrown + DebugResult) \<times> event list" where
  "extract_and_validate parse text =
     (case extractJsonFromText parse text of
        Inl err \<Rightarrow> (Inl err, [Extracted text])
      | Inr parsedResult \<Rightarrow> (validateDebugResult parsedResult, [Extracted text, Validated parsedResult]))"

definition settle :: "string \<Rightarrow> thrown + DebugResult \<Rightarrow> app_state \<Rightarrow> app_state" where
  "settle fallback outcome st =
     (case outcome of
        Inl err \<Rightarrow> st\<lparr>st_error := error_message err fallback\<rparr>
      | Inr r \<Rightarrow> st\<lparr>st_result := Some r\<rparr>)"

text \<open>
  A handler returns the state, the log of the run, and the value it lets escape, if any
  (only the client set-up stands outside its \<^verbatim>\<open>try\<close> block).
\<close>

type_synonym handled = "app_state \<times> event list \<times> thrown option"

definition handleGeminiDebug :: "world \<Rightarrow> app_state \<Rightarrow> handled" where
  "handleGeminiDebug w st =
     (case new_client w Google (st_apiKey st) (st_model st) of
        Some err \<Rightarrow> (st, [Invoked Google], Some err)
      | None \<Rightarrow>
          let rq = build_request Google st in
          (case generateContent w rq of
             Inl err \<Rightarrow>
               (st\<lparr>st_error := error_message err ''Failed to process Gemini response''\<rparr>,
                [Invoked Google, Called Google rq], None)
           | Inr text \<Rightarrow>
               let (outcome, evs) = extract_and_validate (JSON_parse w) text in
               (settle ''Failed to process Gemini response'' outcome st,
                [Invoked Google, Called Google rq] @ evs, None)))"

text \<open>
  \<^verbatim>\<open>response.choices[0]?.message?.content\<close>, and \<^verbatim>\<open>if (content)\<close>: an absent, \<^verbatim>\<open>null\<close> or
  empty content skips the block, and the handler has no \<^verbatim>\<open>else\<close>.
\<close>

definition first_content :: "string option list \<Rightarrow> string option" where
  "first_content choices = (case choices of [] \<Rightarrow> None | c # _ \<Rightarrow> c)"

definition handleOpenAIDebug :: "world \<Rightarrow> app_state \<Rightarrow> handled" where
  "handleOpenAIDebug w st =
     (case new_client w OpenAI (st_apiKey st) (st_model st) of
        Some err \<Rightarrow> (st, [Invoked OpenAI], Some err)
      | None \<Rightarrow>
          let rq = build_request OpenAI st in
          (case chat_completions_create w rq of
             Inl err \<Rightarrow>
               (st\<lparr>st_error := error_message err ''Failed to process OpenAI response''\<rparr>,
                [Invoked OpenAI, Called OpenAI rq], None)
           | Inr choices \<Rightarrow>
               (case first_content choices of
                  None \<Rightarrow> (st, [Invoked OpenAI, Called OpenAI rq], None)
                | Some content \<Rightarrow>
                    if content = [] then (st, [Invoked OpenAI, Called OpenAI rq], None)
                    else
                      let (outcome, evs) = extract_and_validate (JSON_parse w) content in
                      (settle ''Failed to process OpenAI response'' outcome st,
                       [Invoked OpenAI, Called OpenAI rq] @ evs, None))))"

text \<open>
  \<^verbatim>\<open>response.content[0].text\<close>: on an answer without a block the read of \<^verbatim>\<open>text\<close> raises
  a TypeError inside the \<^verbatim>\<open>try\<close> block.
\<close>

definition handleClaudeDebug :: "world \<Rightarrow> app_state \<Rightarrow> handled" where
  "handleClaudeDebug w st =
     (case new_client w Anthropic (st_apiKey st) (st_model st) of
        Some err \<Rightarrow> (st, [Invoked Anthropic], Some err)
      | None \<Rightarrow>
          let rq = build_request Anthropic st in
          (case messages_create w rq of
             Inl err \<Rightarrow>
               (st\<lparr>st_error := error_message err ''Failed to process Claude response''\<rparr>,
                [Invoked Anthropic, Called Anthropic rq], None)
           | Inr [] \<Rightarrow>
               (st\<lparr>st_error :=
                     error_message (cannot_read ''undefined'' ''text'') ''Failed to process Claude response''\<rparr>,
                [Invoked Anthropic, Called Anthropic rq], None)
           | Inr (text # _) \<Rightarrow>
               let (outcome, evs) = extract_and_validate (JSON_parse w) text in
               (settle ''Failed to process Claude response'' outcome st,
                [Invoked Anthropic, Called Anthropic rq] @ evs, None)))"

text \<open>
  \<^verbatim>\<open>if (typeof output === 'string')\<close>: any other output skips the block, and the handler
  has no \<^verbatim>\<open>else\<close>.
\<close>

definition handleLlamaDebug :: "world \<Rightarrow> app_state \<Rightarrow> handled" where
  "handleLlamaDebug w st =
     (case new_client w Replicate (st_apiKey st) (st_model st) of
        Some err \<Rightarrow> (st, [Invoked Replicate], Some err)
      | None \<Rightarrow>
          let rq = build_request Replicate st in
          (case replicate_run w rq of
             Inl err \<Rightarrow>
               (st\<lparr>st_error := error_message err ''Failed to process Llama response''\<rparr>,
                [Invoked Replicate, Called Replicate rq], None)
           | Inr (JString output) \<Rightarrow>
               let (outcome, evs) = extract_and_validate (JSON_parse w) output in
               (settle ''Failed to process Llama response'' outcome st,
                [Invoked Replicate, Called Replicate rq] @ evs, None)
           | Inr _ \<Rightarrow> (st, [Invoked Replicate, Called Replicate rq], None)))"

subsection \<open>handleDebug\<close>

text \<open>
  \<^verbatim>\<open>String.prototype.trim\<close> on code units below 256: tab, line feed, vertical tab, form
  feed, carriage return, space and no-break space are stripped from both ends.
\<close>

definition is_white_space :: "char \<Rightarrow> bool" where
  "is_white_space c =
     (c = CHR 0x09 \<or> c = CHR 0x0A \<or> c = CHR 0x0B \<or> c = CHR 0x0C \<or> c = CHR 0x0D
      \<or> c = CHR 0x20 \<or> c = CHR 0xA0)"

definition trim :: "string \<Rightarrow> string" where
  "trim s = rev (dropWhile is_white_space (rev (dropWhile is_white_space s)))"

text \<open>
  \<open>dispatch\<close> is the body of the \<^verbatim>\<open>try\<close> block of \<^verbatim>\<open>handleDebug\<close>: the catalog
  lookup \<^verbatim>\<open>AI_MODELS.find\<close> and the \<^verbatim>\<open>switch\<close> over the provider. \<open>handleDebug\<close> puts
  the entry check before it and the \<^verbatim>\<open>catch\<close> and \<^verbatim>\<open>finally\<close> clauses after it. The
  handlers read \<^verbatim>\<open>code\<close>, \<^verbatim>\<open>problem\<close>, \<^verbatim>\<open>apiKey\<close> and \<^verbatim>\<open>model\<close> of the render that
  started the run; the three setters called before them leave these fields alone.
\<close>

definition dispatch :: "world \<Rightarrow> app_state \<Rightarrow> handled" where
  "dispatch w st =
     (case find (\<lambda>m. model_value m = st_model st) AI_MODELS of
        None \<Rightarrow> (st\<lparr>st_error := ''Invalid model selected''\<rparr>, [], None)
      | Some selectedModel \<Rightarrow>
          (case model_provider selectedModel of
             Google \<Rightarrow> handleGeminiDebug w st
           | OpenAI \<Rightarrow> handleOpenAIDebug w st
           | Anthropic \<Rightarrow> handleClaudeDebug w st
           | Replicate \<Rightarrow> handleLlamaDebug w st))"

definition handleDebug :: "world \<Rightarrow> app_state \<Rightarrow> app_state \<times> event list" where
  "handleDebug w st =
     (if trim (st_code st) = [] \<or> trim (st_problem st) = [] \<or> trim (st_apiKey st) = []
      then (st\<lparr>st_error := ''Please fill in all fields''\<rparr>, [])
      else
        let st1 = st\<lparr>st_loading := True, st_error := [], st_result := None\<rparr> in
        (case dispatch w st1 of
           (st2, evs, None) \<Rightarrow> (st2\<lparr>st_loading := False\<rparr>, evs)
         | (st2, evs, Some err) \<Rightarrow>
             (st2\<lparr>st_error := error_message err ''An error occurred'', st_loading := False\<rparr>, evs)))"

subsection \<open>Vocabulary for the statements\<close>



fun is_invocation :: "event \<Rightarrow> bool" where
  "is_invocation (Invoked p) = True"
| "is_invocation e = False"

fun is_call :: "event \<Rightarrow> bool" where
  "is_call (Called p rq) = True"
| "is_call e = False"




text \<open>
  A stub world and a filled-in form for the closed instances: the parser knows one
  text, the first end-to-end scenario of the specification; no client set-up throws;
  Gemini and Anthropic answer with that text, OpenAI with a choice whose content is
  \<^verbatim>\<open>null\<close>, Replicate with a sequence of text fragments.
\<close>

definition answer_text :: string where
  "answer_text = ''{\"problem\":\"off-by-one\",\"solution\":\"use < not <=\",\"codeSnippet\":\"for(i=0;i<=n;i++)\"}''"

definition answer_object :: jsval where
  "answer_object =
     JObject [(''problem'', JString ''off-by-one''), (''solution'', JString ''use < not <=''),
              (''codeSnippet'', JString ''for(i=0;i<=n;i++)'')]"

definition answer_result :: DebugResult where
  "answer_result =
     \<lparr>problem = JString ''off-by-one'', solution = JString ''use < not <='',
      codeSnippet = JString ''for(i=0;i<=n;i++)''\<rparr>"

definition stub_parse :: "string \<Rightarrow> jsval option" where
  "stub_parse t = (if t = answer_text then Some answer_object else None)"

definition stub_world :: world where
  "stub_world =
     \<lparr>JSON_parse = stub_parse,
      new_client = (\<lambda>p key m. None),
      generateContent = (\<lambda>rq. Inr answer_text),
      chat_completions_create = (\<lambda>rq. Inr [None]),
      messages_create = (\<lambda>rq. Inr [answer_text]),
      replicate_run = (\<lambda>rq. Inr (JArray [JString ''{\"problem\":'', JString '' \"off-by-one\"'']))\<rparr>"

definition filled :: app_state where
  "filled =
     \<lparr>st_code = ''for(i=0;i<=n;i++)'', st_problem = ''runs once too often'', st_apiKey = ''k-1'',
      st_model = ''gpt-4'', st_loading = False, st_result = None, st_error = []\<rparr>"

section \<open>Properties\<close>

subsection \<open>The pattern match is the substring from the first opening to the last closing brace\<close>

lemma star_then_close_none: "CHR ''}'' \<notin> set rest \<Longrightarrow> star_then_close rest k = None"
  by (induction k) (auto simp: in_set_conv_nth)

lemma star_then_close_last:
  "CHR ''}'' \<notin> set b \<Longrightarrow> length a \<le> k \<Longrightarrow> k \<le> length a + length b \<Longrightarrow>
   star_then_close (a @ CHR ''}'' # b) k = Some (a @ ''}'')"
proof (induction k)
  case 0
  then show ?case by simp
next
  case (Suc k)
  show ?case
  proof (cases "Suc k = length a")
    case True
    then have "length a = Suc k" by simp
    then show ?thesis by (simp add: nth_append)
  next
    case False
    with Suc.prems have le: "length a \<le> k" by simp
    from False Suc.prems have "k - length a < length b" by simp
    with Suc.prems(1) have "b ! (k - length a) \<noteq> CHR ''}''"
      by (metis nth_mem)
    with le False Suc.prems have "(a @ CHR ''}'' # b) ! Suc k \<noteq> CHR ''}''"
      by (simp add: nth_append Suc_diff_le)
    with Suc.IH[OF Suc.prems(1) le] Suc.prems show ?thesis by simp
  qed
qed

lemma jsonMatch_no_close: "CHR ''}'' \<notin> set s \<Longrightarrow> jsonMatch s = None"
  by (induction s) (auto simp: star_then_close_none)

lemma jsonMatch_no_open: "CHR ''{'' \<notin> set s \<Longrightarrow> jsonMatch s = None"
  by (induction s) auto

lemma jsonMatch_skip: "CHR ''{'' \<notin> set p \<Longrightarrow> jsonMatch (p @ s) = jsonMatch s"
  by (induction p) auto

lemma jsonMatch_found:
  assumes "CHR ''{'' \<notin> set p" "CHR ''}'' \<notin> set b"
  shows "jsonMatch (p @ CHR ''{'' # a @ CHR ''}'' # b) = Some (CHR ''{'' # a @ ''}'')"
  using assms by (simp add: jsonMatch_skip star_then_close_last)

lemma takeWhile_until: "c \<notin> set p \<Longrightarrow> takeWhile (\<lambda>x. x \<noteq> c) (p @ c # r) = p"
  by (induction p) auto

lemma first_open_at: "CHR ''{'' \<notin> set p \<Longrightarrow> first_open (p @ CHR ''{'' # r) = length p"
  by (simp add: first_open_def takeWhile_until)

lemma last_close_at: "CHR ''}'' \<notin> set b \<Longrightarrow> last_close (q @ CHR ''}'' # b) = length q"
  using takeWhile_until[of "CHR ''}''" "rev b" "rev q"] by (simp add: last_close_def)

lemma first_to_last_brace_found:
  assumes "CHR ''{'' \<notin> set p" "CHR ''}'' \<notin> set b"
  shows "first_to_last_brace (p @ CHR ''{'' # a @ CHR ''}'' # b) = Some (CHR ''{'' # a @ ''}'')"
proof -
  let ?t = "p @ CHR ''{'' # a @ CHR ''}'' # b"
  have i: "first_open ?t = length p"
    using assms(1) by (rule first_open_at)
  have "last_close ((p @ CHR ''{'' # a) @ CHR ''}'' # b) = length (p @ CHR ''{'' # a)"
    using assms(2) by (rule last_close_at)
  then have j: "last_close ?t = length p + length a + 1" by simp
  show ?thesis by (simp add: first_to_last_brace_def i j)
qed

lemma first_to_last_brace_no_close_after:
  assumes "CHR ''{'' \<notin> set p" "CHR ''}'' \<notin> set r"
  shows "first_to_last_brace (p @ CHR ''{'' # r) = None"
proof (cases "CHR ''}'' \<in> set p")
  case False
  with assms show ?thesis by (simp add: first_to_last_brace_def)
next
  case True
  then obtain q b where p: "p = q @ CHR ''}'' # b" "CHR ''}'' \<notin> set b"
    by (meson split_list_last)
  have "last_close (q @ CHR ''}'' # (b @ CHR ''{'' # r)) = length q"
    using p(2) assms(2) by (intro last_close_at) simp
  then have "last_close (p @ CHR ''{'' # r) = length q"
    using p(1) by simp
  moreover have "first_open (p @ CHR ''{'' # r) = length p"
    using assms(1) by (rule first_open_at)
  ultimately show ?thesis
    using p(1) by (simp add: first_to_last_brace_def)
qed

lemma jsonMatch_first_to_last_brace: "jsonMatch text = first_to_last_brace text"
proof (cases "CHR ''{'' \<in> set text")
  case False
  then show ?thesis
    by (simp add: jsonMatch_no_open first_to_last_brace_def)
next
  case True
  then obtain p r where t: "text = p @ CHR ''{'' # r" "CHR ''{'' \<notin> set p"
    by (meson split_list_first)
  show ?thesis
  proof (cases "CHR ''}'' \<in> set r")
    case False
    have "jsonMatch text = jsonMatch (CHR ''{'' # r)"
      using t by (simp add: jsonMatch_skip)
    also have "\<dots> = None"
      using False by (simp add: star_then_close_none jsonMatch_no_close)
    finally show ?thesis
      using t False by (simp add: first_to_last_brace_no_close_after)
  next
    case True
    then obtain a b where r: "r = a @ CHR ''}'' # b" "CHR ''}'' \<notin> set b"
      by (meson split_list_last)
    show ?thesis
      unfolding t(1) r(1) using t(2) r(2)
      by (simp add: jsonMatch_found first_to_last_brace_found)
  qed
qed

subsection \<open>The extractor\<close>

text \<open>
  Claim C4. \<^verbatim>\<open>extractJsonFromText\<close> runs two phases in order, the first success winning:
  it parses the whole text; failing that, it parses the substring from the first opening
  brace to the last closing brace, both included; failing that (no such substring, or
  one that does not parse), it ends with an error and no value. In particular, when
  \<open>serialize obj\<close> is a brace-delimited text that parses to \<open>obj\<close> and the text
  \<open>Here you go: \<close>, \<open>serialize obj\<close>, \<open> Hope that helps!\<close> as a whole does not parse,
  the extractor returns \<open>obj\<close> for it; and when \<open>no braces here\<close> does not parse, the
  extractor finds nothing in it. (\<^verbatim>\<open>JSON.parse\<close> and the serializer are parameters;
  the real ones satisfy the three conditions on every object.)
\<close>

theorem extractJsonFromText_two_phase:
  "extractJsonFromText parse text =
     (case parse text of
        Some v \<Rightarrow> Inr v
      | None \<Rightarrow>
          (case first_to_last_brace text of
             Some sub \<Rightarrow>
               (case parse sub of
                  Some v \<Rightarrow> Inr v
                | None \<Rightarrow> Inl (ErrorObject ''Could not parse JSON from response''))
           | None \<Rightarrow> Inl (ErrorObject ''No JSON found in response'')))
   \<and> (parse (''Here you go: '' @ serialize obj @ '' Hope that helps!'') = None
        \<and> parse (serialize obj) = Some obj
        \<and> serialize obj = CHR ''{'' # body @ ''}''
      \<longrightarrow> extractJsonFromText parse (''Here you go: '' @ serialize obj @ '' Hope that helps!'')
            = Inr obj)
   \<and> (parse ''no braces here'' = None
      \<longrightarrow> extractJsonFromText parse ''no braces here''
            = Inl (ErrorObject ''No JSON found in response''))"
proof (intro conjI impI)
  show two_phase: "extractJsonFromText parse t =
     (case parse t of
        Some v \<Rightarrow> Inr v
      | None \<Rightarrow>
          (case first_to_last_brace t of
             Some sub \<Rightarrow>
               (case parse sub of
                  Some v \<Rightarrow> Inr v
                | None \<Rightarrow> Inl (ErrorObject ''Could not parse JSON from response''))
           | None \<Rightarrow> Inl (ErrorObject ''No JSON found in response'')))" for t
    unfolding extractJsonFromText_def jsonMatch_first_to_last_brace by (rule refl)
  show "extractJsonFromText parse (''Here you go: '' @ serialize obj @ '' Hope that helps!'')
          = Inr obj"
    if h: "parse (''Here you go: '' @ serialize obj @ '' Hope that helps!'') = None
           \<and> parse (serialize obj) = Some obj \<and> serialize obj = CHR ''{'' # body @ ''}''"
  proof -
    let ?whole = "''Here you go: '' @ serialize obj @ '' Hope that helps!''"
    let ?spelled = "''Here you go: '' @ CHR ''{'' # body @ CHR ''}'' # '' Hope that helps!''"
    from h have whole: "parse ?whole = None"
      and parsed: "parse (serialize obj) = Some obj"
      and braces: "serialize obj = CHR ''{'' # body @ ''}''"
      by blast+
    have spelled: "?whole = ?spelled"
      using braces by simp
    have "first_to_last_brace ?whole = first_to_last_brace ?spelled"
      by (simp only: spelled)
    also have "\<dots> = Some (CHR ''{'' # body @ ''}'')"
      by (rule first_to_last_brace_found) simp_all
    also have "\<dots> = Some (serialize obj)"
      by (simp only: braces)
    finally have sub: "first_to_last_brace ?whole = Some (serialize obj)" .
    show ?thesis
      by (simp only: two_phase whole sub parsed option.case)
  qed
  show "extractJsonFromText parse ''no braces here'' = Inl (ErrorObject ''No JSON found in response'')"
    if "parse ''no braces here'' = None"
    using that by (simp add: two_phase first_to_last_brace_def)
qed

theorem extractJsonFromText_two_phase_witness:
  "extractJsonFromText stub_parse (''Here you go: '' @ answer_text @ '' Hope that helps!'')
     = Inr answer_object
   \<and> extractJsonFromText stub_parse ''no braces here''
     = Inl (ErrorObject ''No JSON found in response'')"
  using extractJsonFromText_two_phase
    [of stub_parse "[]" "\<lambda>v. answer_text" answer_object
        "''\"problem\":\"off-by-one\",\"solution\":\"use < not <=\",\"codeSnippet\":\"for(i=0;i<=n;i++)\"''"]
  by (simp add: stub_parse_def answer_text_def)

text \<open>
  Claim C5. Round trip: whenever the serialized form of a value \<open>obj\<close> parses back to
  \<open>obj\<close> (as \<^verbatim>\<open>JSON.parse\<close> does on what \<^verbatim>\<open>JSON.stringify\<close> produced from a JSON
  object), the extractor returns \<open>obj\<close> for the serialized form.
\<close>

theorem extractJsonFromText_round_trip:
  "parse (serialize obj) = Some obj \<Longrightarrow> extractJsonFromText parse (serialize obj) = Inr obj"
  by (simp add: extractJsonFromText_def)

theorem extractJsonFromText_round_trip_witness:
  "stub_parse answer_text = Some answer_object
   \<and> extractJsonFromText stub_parse answer_text = Inr answer_object"
proof -
  have h: "stub_parse ((\<lambda>v. answer_text) answer_object) = Some answer_object"
    by (simp add: stub_parse_def)
  show ?thesis
    using h extractJsonFromText_round_trip [of stub_parse "\<lambda>v. answer_text" answer_object, OF h]
    by simp
qed

subsection \<open>The validator\<close>

lemma validateDebugResult_accepts_iff:
  "validateDebugResult result = Inr d \<longleftrightarrow>
     (\<exists>p s c. get_property result ''problem'' = Inr p \<and> to_boolean p
            \<and> get_property result ''solution'' = Inr s \<and> to_boolean s
            \<and> get_property result ''codeSnippet'' = Inr c \<and> to_boolean c
            \<and> d = \<lparr>problem = p, solution = s, codeSnippet = c\<rparr>)"
  by (auto simp: validateDebugResult_def split: sum.splits)

lemma validateDebugResult_rejects_falsy:
  assumes "key = ''problem'' \<or> key = ''solution'' \<or> key = ''codeSnippet''"
    and "to_boolean (case map_of kvs key of None \<Rightarrow> JUndefined | Some v \<Rightarrow> v) = False"
  shows "validateDebugResult (JObject kvs) = Inl (ErrorObject ''Invalid response format'')"
  using assms by (auto simp: validateDebugResult_def)

text \<open>
  Claim C3 says the validator accepts exactly the objects with non-empty strings at the
  three keys. The code tests the three values for truthiness only: an object whose
  \<open>problem\<close> is the number 5 and whose \<open>solution\<close> is a nested object is accepted, and
  the values are handed on as they are, in a \<^verbatim>\<open>DebugResult\<close> whose fields are declared
  as strings.
\<close>

theorem validateDebugResult_accepts_non_strings:
  "validateDebugResult
     (JObject [(''problem'', JNumber (Finite 5)),
               (''solution'', JObject [(''steps'', JArray [])]),
               (''codeSnippet'', JString ''x.value'')])
   = Inr \<lparr>problem = JNumber (Finite 5),
          solution = JObject [(''steps'', JArray [])],
          codeSnippet = JString ''x.value''\<rparr>"
  by (simp add: validateDebugResult_def)

subsection \<open>The entry check\<close>

lemma trim_empty_iff: "trim s = [] \<longleftrightarrow> list_all is_white_space s"
proof
  assume "trim s = []"
  then have all: "\<forall>c \<in> set (dropWhile is_white_space s). is_white_space c"
    by (simp add: trim_def)
  have "dropWhile is_white_space s = []"
  proof (rule ccontr)
    assume ne: "dropWhile is_white_space s \<noteq> []"
    then have "\<not> is_white_space (hd (dropWhile is_white_space s))"
      by (rule hd_dropWhile)
    moreover from ne have "hd (dropWhile is_white_space s) \<in> set (dropWhile is_white_space s)"
      by (rule hd_in_set)
    ultimately show False
      using all by blast
  qed
  then show "list_all is_white_space s"
    by (simp add: list_all_iff)
next
  assume "list_all is_white_space s"
  then have "dropWhile is_white_space s = []"
    by (simp add: list_all_iff)
  then show "trim s = []"
    by (simp add: trim_def del: dropWhile_eq_Nil_conv)
qed

text \<open>
  Claim C10. If the code, the problem description or the credential is empty or consists
  of white space only, \<^verbatim>\<open>handleDebug\<close> sets the error to \<open>Please fill in all fields\<close>
  and does nothing else: whatever the selected model and the outside world, no catalog
  lookup is made and no handler runs (the log is empty), and every other field of the
  state, a result shown earlier included, stays as it was.
\<close>

theorem handleDebug_blank_field:
  assumes "list_all is_white_space (st_code st) \<or> list_all is_white_space (st_problem st)
           \<or> list_all is_white_space (st_apiKey st)"
  shows "handleDebug w st = (st\<lparr>st_error := ''Please fill in all fields''\<rparr>, [])"
  using assms by (auto simp: handleDebug_def trim_empty_iff)

theorem handleDebug_blank_field_witness:
  "list_all is_white_space (st_apiKey (filled\<lparr>st_apiKey := ''  '', st_result := Some answer_result\<rparr>))
   \<and> handleDebug stub_world (filled\<lparr>st_apiKey := ''  '', st_result := Some answer_result\<rparr>)
     = (filled\<lparr>st_apiKey := ''  '', st_result := Some answer_result,
               st_error := ''Please fill in all fields''\<rparr>, [])"
  using handleDebug_blank_field [of "filled\<lparr>st_apiKey := ''  '', st_result := Some answer_result\<rparr>" stub_world]
  by (simp add: is_white_space_def)

subsection \<open>Past the entry check\<close>

lemma build_request_reset:
  "build_request p (st\<lparr>st_loading := l, st_error := e, st_result := r\<rparr>) = build_request p st"
  by (cases p) simp_all

lemma handleDebug_past_entry_check:
  assumes "\<not> list_all is_white_space (st_code st)"
    and "\<not> list_all is_white_space (st_problem st)"
    and "\<not> list_all is_white_space (st_apiKey st)"
  shows "handleDebug w st =
     (case dispatch w (st\<lparr>st_loading := True, st_error := [], st_result := None\<rparr>) of
        (st2, evs, None) \<Rightarrow> (st2\<lparr>st_loading := False\<rparr>, evs)
      | (st2, evs, Some err) \<Rightarrow>
          (st2\<lparr>st_error := error_message err ''An error occurred'', st_loading := False\<rparr>, evs))"
  using assms by (simp add: handleDebug_def trim_empty_iff)

text \<open>
  Claim C6 as stated, for every identifier outside the catalog, does not hold of
  \<^verbatim>\<open>handleDebug\<close>: the entry check comes before the catalog lookup, so a request with
  an unknown model and an empty code field ends with \<open>Please fill in all fields\<close>,
  not with \<open>Invalid model selected\<close>.
\<close>

theorem handleDebug_unknown_model_blank_field:
  "st_model (filled\<lparr>st_model := ''gpt-5'', st_code := []\<rparr>) \<notin> set (map model_value AI_MODELS)
   \<and> st_error (fst (handleDebug stub_world (filled\<lparr>st_model := ''gpt-5'', st_code := []\<rparr>)))
       = ''Please fill in all fields''
   \<and> st_error (fst (handleDebug stub_world (filled\<lparr>st_model := ''gpt-5'', st_code := []\<rparr>)))
       \<noteq> ''Invalid model selected''"
  by (simp add: handleDebug_def trim_def AI_MODELS_def)

text \<open>
  Claim C6, amended. For a request that passes the entry check (none of the three fields
  blank) and whose model identifier is not in the catalog, \<^verbatim>\<open>handleDebug\<close> ends with
  the error \<open>Invalid model selected\<close>, no result, and an empty log: no handler was
  entered and no provider call was issued, whatever the outside world.
\<close>

theorem handleDebug_unknown_model:
  assumes "\<not> list_all is_white_space (st_code st)"
    and "\<not> list_all is_white_space (st_problem st)"
    and "\<not> list_all is_white_space (st_apiKey st)"
    and "st_model st \<notin> set (map model_value AI_MODELS)"
  shows "handleDebug w st =
           (st\<lparr>st_loading := False, st_error := ''Invalid model selected'', st_result := None\<rparr>, [])"
proof -
  have "find (\<lambda>m. model_value m = st_model st) AI_MODELS = None"
    using assms(4) by (force simp: find_None_iff)
  then have "dispatch w (st\<lparr>st_loading := True, st_error := [], st_result := None\<rparr>)
               = (st\<lparr>st_loading := True, st_error := ''Invalid model selected'', st_result := None\<rparr>,
                  [], None)"
    by (simp add: dispatch_def)
  then show ?thesis
    by (simp add: handleDebug_past_entry_check [OF assms(1-3)])
qed

theorem handleDebug_unknown_model_witness:
  "st_model (filled\<lparr>st_model := ''gpt-5''\<rparr>) \<notin> set (map model_value AI_MODELS)
   \<and> handleDebug stub_world (filled\<lparr>st_model := ''gpt-5''\<rparr>)
     = (filled\<lparr>st_model := ''gpt-5'', st_error := ''Invalid model selected''\<rparr>, [])"
proof -
  let ?st = "filled\<lparr>st_model := ''gpt-5''\<rparr>"
  have c: "\<not> list_all is_white_space (st_code ?st)"
    and p: "\<not> list_all is_white_space (st_problem ?st)"
    and k: "\<not> list_all is_white_space (st_apiKey ?st)"
    by (simp_all add: filled_def is_white_space_def)
  have m: "st_model ?st \<notin> set (map model_value AI_MODELS)"
    by (simp add: AI_MODELS_def)
  show ?thesis
    using m handleDebug_unknown_model [OF c p k m, of stub_world]
    by (simp add: filled_def)
qed






lemma handleDebug_client_setup_raises:
  assumes "\<not> list_all is_white_space (st_code st)"
    and "\<not> list_all is_white_space (st_problem st)"
    and "\<not> list_all is_white_space (st_apiKey st)"
    and "find (\<lambda>m. model_value m = st_model st) AI_MODELS = Some selectedModel"
    and "p = model_provider selectedModel"
    and "new_client w p (st_apiKey st) (st_model st) = Some err"
  shows "handleDebug w st =
           (st\<lparr>st_loading := False, st_error := error_message err ''An error occurred'',
               st_result := None\<rparr>,
            [Invoked p])"
proof -
  let ?st1 = "st\<lparr>st_loading := True, st_error := [], st_result := None\<rparr>"
  have "dispatch w ?st1 = (?st1, [Invoked p], Some err)"
    using assms(4-6)
    by (cases p)
       (simp_all add: dispatch_def handleGeminiDebug_def handleOpenAIDebug_def
                      handleClaudeDebug_def handleLlamaDebug_def)
  then show ?thesis
    by (simp add: handleDebug_past_entry_check [OF assms(1-3)])
qed

subsection \<open>One forward pass\<close>

lemma handleGeminiDebug_log:
  "\<exists>rq t v. prefix (fst (snd (handleGeminiDebug w st)))
               [Invoked Google, Called Google rq, Extracted t, Validated v]"
  by (auto simp: handleGeminiDebug_def extract_and_validate_def Let_def
           split: option.splits sum.splits)

lemma handleOpenAIDebug_log:
  "\<exists>rq t v. prefix (fst (snd (handleOpenAIDebug w st)))
               [Invoked OpenAI, Called OpenAI rq, Extracted t, Validated v]"
  by (auto simp: handleOpenAIDebug_def extract_and_validate_def Let_def
           split: option.splits sum.splits)

lemma handleClaudeDebug_log:
  "\<exists>rq t v. prefix (fst (snd (handleClaudeDebug w st)))
               [Invoked Anthropic, Called Anthropic rq, Extracted t, Validated v]"
  by (auto simp: handleClaudeDebug_def extract_and_validate_def Let_def
           split: option.splits sum.splits list.splits)

lemma handleLlamaDebug_log:
  "\<exists>rq t v. prefix (fst (snd (handleLlamaDebug w st)))
               [Invoked Replicate, Called Replicate rq, Extracted t, Validated v]"
  by (auto simp: handleLlamaDebug_def extract_and_validate_def Let_def
           split: option.splits sum.splits jsval.splits)

lemma dispatch_log:
  "\<exists>p rq t v. prefix (fst (snd (dispatch w st))) [Invoked p, Called p rq, Extracted t, Validated v]"
proof (cases "find (\<lambda>m. model_value m = st_model st) AI_MODELS")
  case None
  then show ?thesis
    by (simp add: dispatch_def)
next
  case (Some m)
  show ?thesis
  proof (cases "model_provider m")
    case Google
    with Some handleGeminiDebug_log [of w st] show ?thesis
      by (simp add: dispatch_def) blast
  next
    case OpenAI
    with Some handleOpenAIDebug_log [of w st] show ?thesis
      by (simp add: dispatch_def) blast
  next
    case Anthropic
    with Some handleClaudeDebug_log [of w st] show ?thesis
      by (simp add: dispatch_def) blast
  next
    case Replicate
    with Some handleLlamaDebug_log [of w st] show ?thesis
      by (simp add: dispatch_def) blast
  qed
qed

lemma handleDebug_log:
  "snd (handleDebug w st) = []
   \<or> snd (handleDebug w st)
       = fst (snd (dispatch w (st\<lparr>st_loading := True, st_error := [], st_result := None\<rparr>)))"
  by (auto simp: handleDebug_def split: prod.splits option.splits)

lemma prefix_filter_length:
  "prefix xs ys \<Longrightarrow> length (filter P xs) \<le> length (filter P ys)"
  by (auto simp: prefix_def)

text \<open>
  Claim C8. The log of every run of \<^verbatim>\<open>handleDebug\<close> is an initial segment of one
  forward pass: one handler entered, one provider call, one extraction, one validation,
  in this order, all for the same provider. So at most one handler is entered and at
  most one provider call is issued; nothing is repeated and nothing follows a failure.
\<close>

theorem handleDebug_single_pass:
  "(\<exists>p rq t v. prefix (snd (handleDebug w st)) [Invoked p, Called p rq, Extracted t, Validated v])
   \<and> length (filter is_invocation (snd (handleDebug w st))) \<le> 1
   \<and> length (filter is_call (snd (handleDebug w st))) \<le> 1"
proof -
  obtain p rq t v
    where pass: "prefix (snd (handleDebug w st)) [Invoked p, Called p rq, Extracted t, Validated v]"
    using handleDebug_log [of w st]
          dispatch_log [of w "st\<lparr>st_loading := True, st_error := [], st_result := None\<rparr>"]
    by auto
  from prefix_filter_length [OF pass, of is_invocation]
  have one_handler: "length (filter is_invocation (snd (handleDebug w st))) \<le> 1"
    by simp
  from prefix_filter_length [OF pass, of is_call]
  have one_call: "length (filter is_call (snd (handleDebug w st))) \<le> 1"
    by simp
  from pass one_handler one_call show ?thesis
    by blast
qed

subsection \<open>The prompts\<close>







subsection \<open>Runs that end with neither a result nor an error\<close>

text \<open>
  Claim C1 says every run ends with a result or with an error. Both runs below pass the
  entry check and select a catalog model; in the first Replicate returns a sequence of
  text fragments, in the second the first OpenAI choice has no content. Each run ends
  (\<^verbatim>\<open>loading\<close> is off again) after its provider call, with no result and an empty error.
\<close>

theorem handleDebug_ends_silently:
  "handleDebug stub_world (filled\<lparr>st_model := ''meta/llama-2-70b-chat''\<rparr>)
     = (filled\<lparr>st_model := ''meta/llama-2-70b-chat'', st_loading := False, st_result := None,
               st_error := []\<rparr>,
        [Invoked Replicate,
         Called Replicate (build_request Replicate (filled\<lparr>st_model := ''meta/llama-2-70b-chat''\<rparr>))])
   \<and> handleDebug stub_world (filled\<lparr>st_model := ''gpt-4''\<rparr>)
     = (filled\<lparr>st_model := ''gpt-4'', st_loading := False, st_result := None, st_error := []\<rparr>,
        [Invoked OpenAI, Called OpenAI (build_request OpenAI (filled\<lparr>st_model := ''gpt-4''\<rparr>))])"
proof -
  have llama: "find (\<lambda>m. model_value m = ''meta/llama-2-70b-chat'') AI_MODELS
                 = Some \<lparr>model_value = ''meta/llama-2-70b-chat'', model_label = ''Llama 3'',
                         model_provider = Replicate\<rparr>"
    by (simp add: AI_MODELS_def)
  have gpt: "find (\<lambda>m. model_value m = ''gpt-4'') AI_MODELS
               = Some \<lparr>model_value = ''gpt-4'', model_label = ''GPT-4'', model_provider = OpenAI\<rparr>"
    by (simp add: AI_MODELS_def)
  have blank: "trim ''for(i=0;i<=n;i++)'' \<noteq> []" "trim ''runs once too often'' \<noteq> []"
    "trim ''k-1'' \<noteq> []"
    by (simp_all add: trim_empty_iff is_white_space_def)
  show ?thesis
    by (simp add: handleDebug_def dispatch_def handleLlamaDebug_def handleOpenAIDebug_def
                  first_content_def filled_def stub_world_def blank llama gpt
                  build_request_reset [unfolded app_state.simps])
qed

text \<open>
  Claim C2 says a Replicate output that is not one text makes the run fail with a
  classified error. In the code the handler tests \<^verbatim>\<open>typeof output === 'string'\<close> and has
  no other branch: for every output that is not a string the run ends after the
  provider call with no result and an empty error.
\<close>

theorem handleDebug_replicate_output_not_text:
  assumes "\<not> list_all is_white_space (st_code st)"
    and "\<not> list_all is_white_space (st_problem st)"
    and "\<not> list_all is_white_space (st_apiKey st)"
    and "st_model st = ''meta/llama-2-70b-chat''"
    and "new_client w Replicate (st_apiKey st) (st_model st) = None"
    and "replicate_run w (build_request Replicate st) = Inr returned"
    and "\<And>s. returned \<noteq> JString s"
  shows "handleDebug w st =
           (st\<lparr>st_loading := False, st_error := [], st_result := None\<rparr>,
            [Invoked Replicate, Called Replicate (build_request Replicate st)])"
proof -
  let ?st1 = "st\<lparr>st_loading := True, st_error := [], st_result := None\<rparr>"
  have "find (\<lambda>m. model_value m = st_model st) AI_MODELS
          = Some \<lparr>model_value = ''meta/llama-2-70b-chat'', model_label = ''Llama 3'',
                  model_provider = Replicate\<rparr>"
    by (simp add: assms(4) AI_MODELS_def)
  then have "dispatch w ?st1 = handleLlamaDebug w ?st1"
    by (simp add: dispatch_def)
  also have "\<dots> = (?st1, [Invoked Replicate, Called Replicate (build_request Replicate st)], None)"
    using assms(5-7)
    by (cases returned) (auto simp add: handleLlamaDebug_def build_request_reset)
  finally show ?thesis
    by (simp add: handleDebug_past_entry_check [OF assms(1-3)])
qed

theorem handleDebug_replicate_output_not_text_witness:
  "replicate_run stub_world (build_request Replicate (filled\<lparr>st_model := ''meta/llama-2-70b-chat''\<rparr>))
     = Inr (JArray [JString ''{\"problem\":'', JString '' \"off-by-one\"''])
   \<and> st_result (fst (handleDebug stub_world (filled\<lparr>st_model := ''meta/llama-2-70b-chat''\<rparr>))) = None
   \<and> st_error (fst (handleDebug stub_world (filled\<lparr>st_model := ''meta/llama-2-70b-chat''\<rparr>))) = []"
proof -
  let ?st = "filled\<lparr>st_model := ''meta/llama-2-70b-chat''\<rparr>"
  let ?out = "JArray [JString ''{\"problem\":'', JString '' \"off-by-one\"'']"
  have c: "\<not> list_all is_white_space (st_code ?st)"
    and p: "\<not> list_all is_white_space (st_problem ?st)"
    and k: "\<not> list_all is_white_space (st_apiKey ?st)"
    by (simp_all add: filled_def is_white_space_def)
  have m: "st_model ?st = ''meta/llama-2-70b-chat''"
    by simp
  have n: "new_client stub_world Replicate (st_apiKey ?st) (st_model ?st) = None"
    by (simp add: stub_world_def)
  have r: "replicate_run stub_world (build_request Replicate ?st) = Inr ?out"
    by (simp add: stub_world_def)
  have o: "\<And>s. ?out \<noteq> JString s"
    by simp
  show ?thesis
    using r handleDebug_replicate_output_not_text [OF c p k m n r o]
    by simp
qed

subsection \<open>Two complete runs\<close>

text \<open>
  The first and the third end-to-end scenario of the specification, on the stub world:
  an answer that is the expected JSON text ends in the result; an answer without braces
  ends in the extractor's error.
\<close>

lemma handleDebug_scenario_result:
  "handleDebug stub_world (filled\<lparr>st_model := ''gemini-1.5''\<rparr>)
     = (filled\<lparr>st_model := ''gemini-1.5'', st_result := Some answer_result\<rparr>,
        [Invoked Google, Called Google (build_request Google (filled\<lparr>st_model := ''gemini-1.5''\<rparr>)),
         Extracted answer_text, Validated answer_object])"
proof -
  have m: "find (\<lambda>m. model_value m = ''gemini-1.5'') AI_MODELS
             = Some \<lparr>model_value = ''gemini-1.5'', model_label = ''Gemini 1.5'',
                     model_provider = Google\<rparr>"
    by (simp add: AI_MODELS_def)
  have v: "validateDebugResult answer_object = Inr answer_result"
    by (simp add: validateDebugResult_def answer_object_def answer_result_def)
  have e: "extract_and_validate stub_parse answer_text
             = (Inr answer_result, [Extracted answer_text, Validated answer_object])"
    by (simp add: extract_and_validate_def extractJsonFromText_def stub_parse_def v)
  have blank: "trim ''for(i=0;i<=n;i++)'' \<noteq> []" "trim ''runs once too often'' \<noteq> []"
    "trim ''k-1'' \<noteq> []"
    by (simp_all add: trim_empty_iff is_white_space_def)
  show ?thesis
    by (simp add: handleDebug_def dispatch_def handleGeminiDebug_def settle_def filled_def
                  stub_world_def blank m e build_request_reset [unfolded app_state.simps])
qed

lemma handleDebug_scenario_no_json:
  "st_error (fst (handleDebug
       (stub_world\<lparr>messages_create := \<lambda>rq. Inr [''Sorry, I cannot help with that.'']\<rparr>)
       (filled\<lparr>st_model := ''claude-3-opus''\<rparr>)))
     = ''No JSON found in response''
   \<and> st_result (fst (handleDebug
       (stub_world\<lparr>messages_create := \<lambda>rq. Inr [''Sorry, I cannot help with that.'']\<rparr>)
       (filled\<lparr>st_model := ''claude-3-opus''\<rparr>)))
     = None"
proof -
  have m: "find (\<lambda>m. model_value m = ''claude-3-opus'') AI_MODELS
             = Some \<lparr>model_value = ''claude-3-opus'', model_label = ''Claude 3'',
                     model_provider = Anthropic\<rparr>"
    by (simp add: AI_MODELS_def)
  have e: "extractJsonFromText stub_parse ''Sorry, I cannot help with that.''
             = Inl (ErrorObject ''No JSON found in response'')"
    by (simp add: extractJsonFromText_def stub_parse_def answer_text_def jsonMatch_no_open)
  have blank: "trim ''for(i=0;i<=n;i++)'' \<noteq> []" "trim ''runs once too often'' \<noteq> []"
    "trim ''k-1'' \<noteq> []"
    by (simp_all add: trim_empty_iff is_white_space_def)
  show ?thesis
    by (simp add: handleDebug_def dispatch_def handleClaudeDebug_def settle_def filled_def
                  stub_world_def blank m e extract_and_validate_def error_message_def)
qed

end
